theory Spec2Isabelle
  imports Main "HOL-Library.Char_ord" "HOL-Library.List_Lexorder"
begin

section \<open>Values, files and the world a run acts on\<close>

text \<open>
  The two programs, \<^verbatim>\<open>project.py\<close> (Google speech API) and \<^verbatim>\<open>app.py\<close> (Whisper), are
  Streamlit scripts: every user action re-runs \<^verbatim>\<open>main\<close> from the top. A run reads and
  writes files (the history, the recording, the synthesiser's scratch file and, in
  \<^verbatim>\<open>app.py\<close>, a temporary copy of an upload), draws widgets, and calls the speech
  engines. The model threads a \<open>world\<close> through the run; an uncaught Python exception is the
  \<open>Inl\<close> branch of the result, paired with the world as it was when the exception was raised.
  Constructing the engines (\<^verbatim>\<open>init_tts\<close>, \<^verbatim>\<open>load_whisper_model\<close>) touches none of this
  and is taken to succeed.

  A \<open>char\<close> of a model string stands for one character of a Python \<^verbatim>\<open>str\<close>. Static page
  furniture (CSS, titles, headers, the language select box, spinners) is left out.
\<close>

datatype json =
    JNull
  | JBool bool
  | JNum int
  | JStr string
  | JArr "json list"
  | JObj "(string \<times> json) list"

text \<open>
  What a file holds, classified by what \<^verbatim>\<open>json.load\<close> on the file opened in text mode
  makes of it: the serialisation of a JSON value, as \<^verbatim>\<open>json.dump\<close> writes it; text that is
  not a JSON document (an empty or truncated file, other text); or bytes that do not decode
  as text at all. Audio and uploads are file contents like any other, and fall in whichever
  class their bytes do.
\<close>

datatype file_data = Json_text json | Not_json string | Not_text string

datatype py_error =
    JSONDecodeError
  | UnicodeDecodeError
  | AttributeError
  | TypeError
  | KeyError string
  | FileNotFoundError string
  | PortAudioError string
  | EngineError string

datatype widget =
    History_card json json json
  | Write string
  | Success string
  | Text_area string
  | Audio file_data

record world =
  files :: "string \<Rightarrow> file_data option"
  screen :: "widget list"
  spoken :: "string list"

type_synonym 'a run = "(py_error + 'a) \<times> world"

abbreviation history_file :: string where
  "history_file \<equiv> ''conversion_history.json''"

abbreviation temp_recording :: string where
  "temp_recording \<equiv> ''temp_recording.wav''"

abbreviation temp_speech :: string where
  "temp_speech \<equiv> ''temp_speech.wav''"

definition and_then :: "unit run \<Rightarrow> (world \<Rightarrow> unit run) \<Rightarrow> unit run" where
  "and_then r f = (case r of (Inl e, w) \<Rightarrow> (Inl e, w) | (Inr _, w) \<Rightarrow> f w)"

subsection \<open>The Python operations the code applies to loaded values\<close>

text \<open>
  \<^verbatim>\<open>json.load(f)\<close> reads the whole file as text, which raises on bytes that do not
  decode, and then parses it.
\<close>

definition json_load :: "file_data \<Rightarrow> py_error + json" where
  "json_load d =
     (case d of
        Json_text j \<Rightarrow> Inr j
      | Not_json _ \<Rightarrow> Inl JSONDecodeError
      | Not_text _ \<Rightarrow> Inl UnicodeDecodeError)"

text \<open>\<^verbatim>\<open>history.append(new_entry)\<close>: only a list has the method.\<close>

definition list_append :: "json \<Rightarrow> json \<Rightarrow> py_error + json" where
  "list_append history entry =
     (case history of JArr xs \<Rightarrow> Inr (JArr (xs @ [entry])) | _ \<Rightarrow> Inl AttributeError)"

text \<open>\<^verbatim>\<open>entry[key]\<close> with a string key.\<close>

definition getitem :: "json \<Rightarrow> string \<Rightarrow> py_error + json" where
  "getitem entry k =
     (case entry of
        JObj kvs \<Rightarrow> (case map_of kvs k of Some v \<Rightarrow> Inr v | None \<Rightarrow> Inl (KeyError k))
      | _ \<Rightarrow> Inl TypeError)"

text \<open>
  \<^verbatim>\<open>v[:n]\<close>: strings and lists slice; every other value raises (a dict raises TypeError
  before Python 3.12 and KeyError from 3.12 on; the model says TypeError).
\<close>

definition slice_to :: "nat \<Rightarrow> json \<Rightarrow> py_error + json" where
  "slice_to n v =
     (case v of
        JStr s \<Rightarrow> Inr (JStr (take n s))
      | JArr xs \<Rightarrow> Inr (JArr (take n xs))
      | _ \<Rightarrow> Inl TypeError)"

text \<open>\<^verbatim>\<open>v[-n:]\<close>, as the sequence of its items: a string's items are its characters.\<close>

definition slice_last :: "nat \<Rightarrow> json \<Rightarrow> py_error + json list" where
  "slice_last n v =
     (case v of
        JArr xs \<Rightarrow> Inr (drop (length xs - n) xs)
      | JStr s \<Rightarrow> Inr (map (\<lambda>c. JStr [c]) (drop (length s - n) s))
      | _ \<Rightarrow> Inl TypeError)"

subsection \<open>Timestamps\<close>

record datetime =
  year :: nat
  month :: nat
  day :: nat
  hour :: nat
  minute :: nat
  second :: nat
  microsecond :: nat

definition digit :: "nat \<Rightarrow> char" where
  "digit n = char_of (48 + n)"

definition pad2 :: "nat \<Rightarrow> string" where
  "pad2 n = [digit (n div 10 mod 10), digit (n mod 10)]"

definition pad4 :: "nat \<Rightarrow> string" where
  "pad4 n = [digit (n div 1000 mod 10), digit (n div 100 mod 10),
             digit (n div 10 mod 10), digit (n mod 10)]"

text \<open>\<^verbatim>\<open>strftime("%Y-%m-%d %H:%M:%S")\<close>.\<close>

definition strftime :: "datetime \<Rightarrow> string" where
  "strftime d =
     pad4 (year d) @ ''-'' @ pad2 (month d) @ ''-'' @ pad2 (day d) @ '' '' @
     pad2 (hour d) @ '':'' @ pad2 (minute d) @ '':'' @ pad2 (second d)"

text \<open>
  The values \<^verbatim>\<open>datetime.now()\<close> returns on a running system. (The library allows years
  from 1, but \<^verbatim>\<open>%Y\<close> pads years below 1000 on some platforms only.)
\<close>

definition clock_ok :: "datetime \<Rightarrow> bool" where
  "clock_ok d \<longleftrightarrow>
     1000 \<le> year d \<and> year d \<le> 9999 \<and> 1 \<le> month d \<and> month d \<le> 12 \<and>
     1 \<le> day d \<and> day d \<le> 31 \<and> hour d < 24 \<and> minute d < 60 \<and> second d < 60 \<and>
     microsecond d < 1000000"

subsection \<open>save_to_history\<close>

text \<open>\<^verbatim>\<open>open(path, 'w')\<close> creates the file or truncates it to nothing.\<close>

definition open_w :: "string \<Rightarrow> world \<Rightarrow> world" where
  "open_w path w = w\<lparr>files := (files w)(path \<mapsto> Not_json [])\<rparr>"

text \<open>\<^verbatim>\<open>json.dump(v, f)\<close> and the close of \<^verbatim>\<open>f\<close> at the end of the \<^verbatim>\<open>with\<close> block.\<close>

definition json_dump :: "json \<Rightarrow> string \<Rightarrow> world \<Rightarrow> world" where
  "json_dump v path w = w\<lparr>files := (files w)(path \<mapsto> Json_text v)\<rparr>"

definition new_entry :: "datetime \<Rightarrow> string \<Rightarrow> string \<Rightarrow> json" where
  "new_entry now text conversion_type =
     JObj [(''timestamp'', JStr (strftime now)),
           (''text'', JStr text),
           (''type'', JStr conversion_type)]"

text \<open>The history as \<^verbatim>\<open>save_to_history\<close> reads it: an absent file is the empty list.\<close>

definition read_history :: "world \<Rightarrow> py_error + json" where
  "read_history w =
     (case files w history_file of
        Some d \<Rightarrow> json_load d
      | None \<Rightarrow> Inr (JArr []))"

definition save_to_history :: "datetime \<Rightarrow> string \<Rightarrow> string \<Rightarrow> world \<Rightarrow> unit run" where
  "save_to_history now text conversion_type w =
     (case read_history w of
        Inl e \<Rightarrow> (Inl e, w)
      | Inr history \<Rightarrow>
          (case list_append history (new_entry now text conversion_type) of
             Inl e \<Rightarrow> (Inl e, w)
           | Inr history' \<Rightarrow>
               (Inr (), json_dump history' history_file (open_w history_file w))))"

text \<open>
  The states the disk passes through while \<^verbatim>\<open>save_to_history\<close> runs, in order: none when
  the read or the append raises, else the state after \<^verbatim>\<open>open(history_file, 'w')\<close> and the
  state after the dump.
\<close>

definition save_to_history_steps :: "datetime \<Rightarrow> string \<Rightarrow> string \<Rightarrow> world \<Rightarrow> world list" where
  "save_to_history_steps now text conversion_type w =
     (case read_history w of
        Inl e \<Rightarrow> []
      | Inr history \<Rightarrow>
          (case list_append history (new_entry now text conversion_type) of
             Inl e \<Rightarrow> []
           | Inr history' \<Rightarrow>
               [open_w history_file w,
                json_dump history' history_file (open_w history_file w)]))"

subsection \<open>The history panel of main\<close>

text \<open>One card: the three subscripts of the f-string, in its order.\<close>

definition render_card :: "json \<Rightarrow> py_error + widget" where
  "render_card entry =
     (case getitem entry ''timestamp'' of
        Inl e \<Rightarrow> Inl e
      | Inr ts \<Rightarrow>
          (case getitem entry ''type'' of
             Inl e \<Rightarrow> Inl e
           | Inr ty \<Rightarrow>
               (case getitem entry ''text'' of
                  Inl e \<Rightarrow> Inl e
                | Inr tx \<Rightarrow>
                    (case slice_to 50 tx of
                       Inl e \<Rightarrow> Inl e
                     | Inr shown \<Rightarrow> Inr (History_card ts ty shown)))))"

text \<open>The loop body over the entries; the cards drawn before an exception stay drawn.\<close>

fun render_cards :: "json list \<Rightarrow> world \<Rightarrow> unit run" where
  "render_cards [] w = (Inr (), w)"
| "render_cards (entry # rest) w =
     (case render_card entry of
        Inl e \<Rightarrow> (Inl e, w)
      | Inr drawn \<Rightarrow> render_cards rest (w\<lparr>screen := screen w @ [drawn]\<rparr>))"

text \<open>\<^verbatim>\<open>reversed(history[-5:])\<close>: the entries the panel iterates over.\<close>

definition recent :: "nat \<Rightarrow> json \<Rightarrow> py_error + json list" where
  "recent n history =
     (case slice_last n history of Inl e \<Rightarrow> Inl e | Inr xs \<Rightarrow> Inr (rev xs))"

definition history_panel :: "world \<Rightarrow> unit run" where
  "history_panel w =
     (case files w history_file of
        None \<Rightarrow> (Inr (), w)
      | Some d \<Rightarrow>
          (case json_load d of
             Inl e \<Rightarrow> (Inl e, w)
           | Inr history \<Rightarrow>
               (case recent 5 history of
                  Inl e \<Rightarrow> (Inl e, w)
                | Inr entries \<Rightarrow> render_cards entries w)))"

section \<open>What lies outside the code: the user, the clock, the devices, the engines\<close>

record upload =
  upload_name :: string
  getvalue :: file_data

text \<open>What the user did to cause this run of the script.\<close>

record action =
  uploaded_file :: "upload option"
  record_audio :: bool
  input_text :: string
  convert_to_speech :: bool

text \<open>What \<^verbatim>\<open>recognize_google\<close> does with the audio it is given.\<close>

datatype google_result =
    Recognized string
  | UnknownValueError
  | RequestError string
  | OtherException string

text \<open>What \<^verbatim>\<open>model.transcribe\<close> does: a result, or any exception, with its message.\<close>

datatype whisper_result = Transcript string | WhisperException string

text \<open>
  \<open>mic\<close>: what \<^verbatim>\<open>sd.rec\<close> and \<^verbatim>\<open>sf.write\<close> put in the recording file, or the message
  of the exception they raise. \<open>sr_record\<close>: \<^verbatim>\<open>sr.AudioFile\<close> and \<^verbatim>\<open>r.record\<close> on a
  sample, which sit outside the \<^verbatim>\<open>try\<close>. \<open>synth\<close>: what \<^verbatim>\<open>save_to_file\<close> and
  \<^verbatim>\<open>runAndWait\<close> do for a text: the message of the exception raised, if any, and the
  bytes left in the output file, if any. \<open>tmp_name\<close>: the path \<^verbatim>\<open>NamedTemporaryFile\<close>
  hands out. \<open>now_stt\<close> and \<open>now_tts\<close>: the clock at the two calls of
  \<^verbatim>\<open>save_to_history\<close>.
\<close>

record env =
  mic :: "string + file_data"
  sr_record :: "file_data \<Rightarrow> string + string"
  recognize_google :: "string \<Rightarrow> google_result"
  transcribe :: "file_data option \<Rightarrow> whisper_result"
  synth :: "string \<Rightarrow> string option \<times> file_data option"
  tmp_name :: string
  now_stt :: datetime
  now_tts :: datetime

section \<open>The adapters\<close>

text \<open>\<^verbatim>\<open>speech_to_text\<close> of \<^verbatim>\<open>project.py\<close>.\<close>

definition speech_to_text_project :: "env \<Rightarrow> file_data \<Rightarrow> py_error + string" where
  "speech_to_text_project env audio_file =
     (case sr_record env audio_file of
        Inl m \<Rightarrow> Inl (EngineError m)
      | Inr audio \<Rightarrow>
          (case recognize_google env audio of
             Recognized text \<Rightarrow> Inr text
           | UnknownValueError \<Rightarrow> Inr ''Could not understand audio''
           | RequestError m \<Rightarrow> Inr ''Could not request results''
           | OtherException m \<Rightarrow> Inl (EngineError m)))"

text \<open>\<^verbatim>\<open>speech_to_text\<close> of \<^verbatim>\<open>app.py\<close>: \<^verbatim>\<open>except Exception\<close> catches everything.\<close>

definition speech_to_text_app :: "env \<Rightarrow> string \<Rightarrow> world \<Rightarrow> py_error + string" where
  "speech_to_text_app env audio_path w =
     (case transcribe env (files w audio_path) of
        Transcript text \<Rightarrow> Inr text
      | WhisperException m \<Rightarrow> Inr (''Error in transcription: '' @ m))"

definition text_to_speech :: "env \<Rightarrow> string \<Rightarrow> world \<Rightarrow> string run" where
  "text_to_speech env text w =
     (let temp_file = temp_speech;
          w' = w\<lparr>files := (case snd (synth env text) of
                              None \<Rightarrow> files w
                            | Some b \<Rightarrow> (files w)(temp_file \<mapsto> b)),
                  spoken := spoken w @ [text]\<rparr>
      in case fst (synth env text) of
           Some m \<Rightarrow> (Inl (EngineError m), w')
         | None \<Rightarrow> (Inr temp_file, w'))"

section \<open>main, block by block\<close>

text \<open>
  The \<^verbatim>\<open>Record Audio\<close> button of \<^verbatim>\<open>project.py\<close> (the message is shown here without its
  emoji).
\<close>

definition record_block_project :: "env \<Rightarrow> action \<Rightarrow> world \<Rightarrow> unit run" where
  "record_block_project env act w =
     (if record_audio act then
        (let w1 = w\<lparr>screen := screen w @ [Write ''Recording... (5 seconds)'']\<rparr>
         in case mic env of
              Inl m \<Rightarrow> (Inl (PortAudioError m), w1)
            | Inr audio_data \<Rightarrow>
                (Inr (), w1\<lparr>files := (files w1)(temp_recording \<mapsto> audio_data),
                            screen := screen w1 @ [Success ''Recording completed!'']\<rparr>))
      else (Inr (), w))"

text \<open>
  The same button of \<^verbatim>\<open>app.py\<close>, where the message is only the label of a spinner and
  nothing is written before the recording.
\<close>

definition record_block_app :: "env \<Rightarrow> action \<Rightarrow> world \<Rightarrow> unit run" where
  "record_block_app env act w =
     (if record_audio act then
        (case mic env of
           Inl m \<Rightarrow> (Inl (PortAudioError m), w)
         | Inr audio_data \<Rightarrow>
             (Inr (), w\<lparr>files := (files w)(temp_recording \<mapsto> audio_data),
                        screen := screen w @ [Success ''Recording completed!'']\<rparr>))
      else (Inr (), w))"

text \<open>
  \<^verbatim>\<open>if uploaded_file is not None or os.path.exists("temp_recording.wav")\<close> of
  \<^verbatim>\<open>project.py\<close>: the sample is the upload if there is one, else the recording file.
\<close>

definition transcribe_block_project :: "env \<Rightarrow> action \<Rightarrow> world \<Rightarrow> unit run" where
  "transcribe_block_project env act w =
     (case (case uploaded_file act of
              Some u \<Rightarrow> Some (getvalue u)
            | None \<Rightarrow> files w temp_recording) of
        None \<Rightarrow> (Inr (), w)
      | Some audio_file \<Rightarrow>
          (case speech_to_text_project env audio_file of
             Inl e \<Rightarrow> (Inl e, w)
           | Inr text \<Rightarrow>
               save_to_history (now_stt env) text ''Speech to Text''
                 (w\<lparr>screen := screen w @ [Text_area text]\<rparr>)))"

text \<open>
  The same block of \<^verbatim>\<open>app.py\<close>: an upload is first copied to a temporary file, which is
  unlinked after the history is saved; the recording file is used where it lies.
\<close>

definition transcribe_block_app :: "env \<Rightarrow> action \<Rightarrow> world \<Rightarrow> unit run" where
  "transcribe_block_app env act w =
     (if uploaded_file act \<noteq> None \<or> files w temp_recording \<noteq> None then
        (let w1 = (case uploaded_file act of
                     Some u \<Rightarrow> w\<lparr>files := (files w)(tmp_name env \<mapsto> getvalue u)\<rparr>
                   | None \<Rightarrow> w);
             audio_path = (case uploaded_file act of
                             Some u \<Rightarrow> tmp_name env
                           | None \<Rightarrow> temp_recording)
         in case speech_to_text_app env audio_path w1 of
              Inl e \<Rightarrow> (Inl e, w1)
            | Inr text \<Rightarrow>
                and_then
                  (save_to_history (now_stt env) text ''Speech to Text''
                     (w1\<lparr>screen := screen w1 @ [Text_area text]\<rparr>))
                  (\<lambda>w3. (Inr (),
                      (case uploaded_file act of
                         Some u \<Rightarrow> w3\<lparr>files := (files w3)(audio_path := None)\<rparr>
                       | None \<Rightarrow> w3))))
      else (Inr (), w))"

text \<open>The \<^verbatim>\<open>Convert to Speech\<close> button, the same in both files.\<close>

definition convert_block :: "env \<Rightarrow> action \<Rightarrow> world \<Rightarrow> unit run" where
  "convert_block env act w =
     (if convert_to_speech act then
        (if input_text act \<noteq> [] then
           (case text_to_speech env (input_text act) w of
              (Inl e, w1) \<Rightarrow> (Inl e, w1)
            | (Inr audio_file, w1) \<Rightarrow>
                (case files w1 audio_file of
                   None \<Rightarrow> (Inl (FileNotFoundError audio_file), w1)
                 | Some audio_bytes \<Rightarrow>
                     and_then
                       (save_to_history (now_tts env) (input_text act) ''Text to Speech''
                          (w1\<lparr>screen := screen w1 @ [Audio audio_bytes]\<rparr>))
                       (\<lambda>w3. (Inr (), w3\<lparr>files := (files w3)(audio_file := None)\<rparr>))))
         else (Inr (), w))
      else (Inr (), w))"

definition main_project :: "env \<Rightarrow> action \<Rightarrow> world \<Rightarrow> unit run" where
  "main_project env act w =
     and_then (history_panel w) (\<lambda>w1.
     and_then (record_block_project env act w1) (\<lambda>w2.
     and_then (transcribe_block_project env act w2) (\<lambda>w3.
     convert_block env act w3)))"

definition main_app :: "env \<Rightarrow> action \<Rightarrow> world \<Rightarrow> unit run" where
  "main_app env act w =
     and_then (history_panel w) (\<lambda>w1.
     and_then (record_block_app env act w1) (\<lambda>w2.
     and_then (transcribe_block_app env act w2) (\<lambda>w3.
     convert_block env act w3)))"

section \<open>Notions the properties are stated with\<close>

text \<open>
  The persisted log as a sequence of records: the elements of the array in the history
  file, none when the file is absent; undefined when the file holds anything else.
\<close>

definition stored_log :: "world \<Rightarrow> json list option" where
  "stored_log w =
     (case files w history_file of
        None \<Rightarrow> Some []
      | Some (Json_text (JArr xs)) \<Rightarrow> Some xs
      | Some _ \<Rightarrow> None)"

text \<open>The entries the panel of main iterates over, had it sliced the last \<open>n\<close>.\<close>

definition panel_entries :: "nat \<Rightarrow> world \<Rightarrow> py_error + json list" where
  "panel_entries n w =
     (case files w history_file of
        None \<Rightarrow> Inr []
      | Some d \<Rightarrow> (case json_load d of Inl e \<Rightarrow> Inl e | Inr history \<Rightarrow> recent n history))"

text \<open>A sequence of calls of \<^verbatim>\<open>save_to_history\<close>, each with its clock reading.\<close>

fun appends :: "(datetime \<times> string \<times> string) list \<Rightarrow> world \<Rightarrow> world" where
  "appends [] w = w"
| "appends ((now, text, conversion_type) # rest) w =
     appends rest (snd (save_to_history now text conversion_type w))"

definition entry_of :: "datetime \<times> string \<times> string \<Rightarrow> json" where
  "entry_of r = (case r of (now, text, conversion_type) \<Rightarrow> new_entry now text conversion_type)"

definition card_of :: "datetime \<times> string \<times> string \<Rightarrow> widget" where
  "card_of r =
     (case r of (now, text, conversion_type) \<Rightarrow>
        History_card (JStr (strftime now)) (JStr conversion_type) (JStr (take 50 text)))"

text \<open>The schema of a persisted record.\<close>

definition is_digit :: "char \<Rightarrow> bool" where
  "is_digit c \<longleftrightarrow> 48 \<le> (of_char c :: nat) \<and> (of_char c :: nat) \<le> 57"

definition is_timestamp :: "string \<Rightarrow> bool" where
  "is_timestamp s \<longleftrightarrow>
     length s = 19 \<and>
     list_all is_digit (take 4 s) \<and> s ! 4 = CHR ''-'' \<and>
     list_all is_digit (take 2 (drop 5 s)) \<and> s ! 7 = CHR ''-'' \<and>
     list_all is_digit (take 2 (drop 8 s)) \<and> s ! 10 = CHR '' '' \<and>
     list_all is_digit (take 2 (drop 11 s)) \<and> s ! 13 = CHR '':'' \<and>
     list_all is_digit (take 2 (drop 14 s)) \<and> s ! 16 = CHR '':'' \<and>
     list_all is_digit (take 2 (drop 17 s))"

text \<open>Chronological order, to the second.\<close>

definition before :: "datetime \<Rightarrow> datetime \<Rightarrow> bool" where
  "before a b \<longleftrightarrow>
     year a < year b \<or> year a = year b \<and>
    (month a < month b \<or> month a = month b \<and>
    (day a < day b \<or> day a = day b \<and>
    (hour a < hour b \<or> hour a = hour b \<and>
    (minute a < minute b \<or> minute a = minute b \<and> second a < second b))))"

definition str_field :: "(string \<times> json) list \<Rightarrow> string \<Rightarrow> string option" where
  "str_field kvs k = (case map_of kvs k of Some (JStr s) \<Rightarrow> Some s | _ \<Rightarrow> None)"

definition is_record :: "json \<Rightarrow> bool" where
  "is_record j =
     (case j of
        JObj kvs \<Rightarrow>
          distinct (map fst kvs) \<and>
          set (map fst kvs) = {''timestamp'', ''text'', ''type''} \<and>
          (case str_field kvs ''timestamp'' of Some ts \<Rightarrow> is_timestamp ts | None \<Rightarrow> False) \<and>
          str_field kvs ''text'' \<noteq> None \<and>
          (str_field kvs ''type'' = Some ''Speech to Text'' \<or>
           str_field kvs ''type'' = Some ''Text to Speech'')
      | _ \<Rightarrow> False)"

definition history_ok :: "world \<Rightarrow> bool" where
  "history_ok w = (case stored_log w of Some L \<Rightarrow> list_all is_record L | None \<Rightarrow> False)"



definition heard_app :: "env \<Rightarrow> file_data \<Rightarrow> string" where
  "heard_app env r =
     (case transcribe env (Some r) of
        Transcript text \<Rightarrow> text
      | WhisperException m \<Rightarrow> ''Error in transcription: '' @ m)"



subsection \<open>Concrete inputs\<close>

definition fresh_world :: world where
  "fresh_world = \<lparr>files = Map.empty, screen = [], spoken = []\<rparr>"

definition noon :: datetime where
  "noon = \<lparr>year = 2024, month = 3, day = 9, hour = 12, minute = 0, second = 5,
           microsecond = 0\<rparr>"

definition later :: datetime where
  "later = \<lparr>year = 2024, month = 3, day = 9, hour = 12, minute = 1, second = 0,
            microsecond = 0\<rparr>"

text \<open>An environment whose engines fail on every sample and whose synthesiser works.\<close>

definition deaf_env :: env where
  "deaf_env =
     \<lparr>mic = Inr (Not_json ''RIFF''),
      sr_record = (\<lambda>d. Inr ''pcm''),
      recognize_google = (\<lambda>a. UnknownValueError),
      transcribe = (\<lambda>d. WhisperException ''out of memory''),
      synth = (\<lambda>t. (None, Some (Not_json ''RIFF''))),
      tmp_name = ''/tmp/tmpab12.wav'',
      now_stt = noon,
      now_tts = later\<rparr>"

definition noise_upload :: action where
  "noise_upload =
     \<lparr>uploaded_file = Some \<lparr>upload_name = ''noise.wav'', getvalue = Not_json ''noise''\<rparr>,
      record_audio = False, input_text = [], convert_to_speech = False\<rparr>"

definition idle :: action where
  "idle = \<lparr>uploaded_file = None, record_audio = False, input_text = [],
           convert_to_speech = False\<rparr>"

definition say_hi :: action where
  "say_hi = \<lparr>uploaded_file = None, record_audio = False, input_text = ''hi'',
             convert_to_speech = True\<rparr>"

text \<open>A store holding one record.\<close>

definition one_record_world :: world where
  "one_record_world =
     fresh_world\<lparr>files := (files fresh_world)(history_file \<mapsto>
        Json_text (JArr [new_entry noon ''a'' ''Speech to Text'']))\<rparr>"

text \<open>A store whose file holds the JSON document \<^verbatim>\<open>""\<close>.\<close>

definition string_store_world :: world where
  "string_store_world =
     fresh_world\<lparr>files := (files fresh_world)(history_file \<mapsto> Json_text (JStr []))\<rparr>"

text \<open>An environment whose synthesiser raises after its driver has written the file.\<close>

definition failing_synth_env :: env where
  "failing_synth_env =
     deaf_env\<lparr>synth := (\<lambda>t. (Some ''driver error'', Some (Not_json ''RI'')))\<rparr>"




text \<open>A store whose file holds bytes that are not text.\<close>

definition binary_store_world :: world where
  "binary_store_world =
     fresh_world\<lparr>files := (files fresh_world)(history_file \<mapsto> Not_text ''RIFF'')\<rparr>"

section \<open>Properties of the history store\<close>

lemma stored_log_cases:
  "stored_log w = Some L \<Longrightarrow>
     (files w history_file = None \<and> L = []) \<or> files w history_file = Some (Json_text (JArr L))"
  by (auto simp: stored_log_def split: option.splits file_data.splits json.splits)

lemma stored_log_written:
  "stored_log (w\<lparr>files := (files w)(history_file \<mapsto> Json_text (JArr L))\<rparr>) = Some L"
  by (simp add: stored_log_def)

lemma stored_log_absent: "files w history_file = None \<Longrightarrow> stored_log w = Some []"
  by (simp add: stored_log_def)

lemma save_to_history_log:
  assumes "stored_log w = Some L"
  shows "save_to_history now text ctype w =
           (Inr (), w\<lparr>files := (files w)(history_file \<mapsto>
                        Json_text (JArr (L @ [new_entry now text ctype])))\<rparr>)"
  using stored_log_cases [OF assms]
  by (auto simp: save_to_history_def read_history_def json_load_def list_append_def
                 json_dump_def open_w_def)

lemma recent_last_two: "recent 2 (JArr (L @ [a, b])) = Inr [b, a]"
  by (simp add: recent_def slice_last_def)

lemma recent_array: "recent n (JArr xs) = Inr (take n (rev xs))"
  by (simp add: recent_def slice_last_def take_rev)

lemma entry_of_triple: "entry_of (n, t, c) = new_entry n t c"
  by (simp add: entry_of_def)

lemma card_of_triple:
  "card_of (n, t, c) = History_card (JStr (strftime n)) (JStr c) (JStr (take 50 t))"
  by (simp add: card_of_def)

lemma appends_log:
  "stored_log w = Some L \<Longrightarrow>
     appends rs w =
       (if rs = [] then w
        else w\<lparr>files := (files w)(history_file \<mapsto> Json_text (JArr (L @ map entry_of rs)))\<rparr>)"
proof (induction rs arbitrary: w L)
  case Nil
  then show ?case by simp
next
  case (Cons r rs)
  obtain n t c where r: "r = (n, t, c)"
    by (cases r) auto
  let ?w = "w\<lparr>files := (files w)(history_file \<mapsto>
                 Json_text (JArr (L @ [new_entry n t c])))\<rparr>"
  have step: "save_to_history n t c w = (Inr (), ?w)"
    by (rule save_to_history_log [OF Cons.prems])
  have log: "stored_log ?w = Some (L @ [new_entry n t c])"
    by (rule stored_log_written)
  show ?case
    using Cons.IH [OF log] by (simp add: r step entry_of_triple)
qed

lemma render_card_new_entry:
  "render_card (new_entry now text ctype) =
     Inr (History_card (JStr (strftime now)) (JStr ctype) (JStr (take 50 text)))"
  by (simp add: render_card_def new_entry_def getitem_def slice_to_def)

lemma render_cards_entries:
  "render_cards (map entry_of rs) w = (Inr (), w\<lparr>screen := screen w @ map card_of rs\<rparr>)"
proof (induction rs arbitrary: w)
  case Nil
  then show ?case by simp
next
  case (Cons r rs)
  obtain n t c where r: "r = (n, t, c)"
    by (cases r) auto
  show ?case
    by (simp add: r entry_of_triple card_of_triple render_card_new_entry Cons.IH)
qed

lemma history_panel_entries:
  "history_panel w =
     (case panel_entries 5 w of Inl e \<Rightarrow> (Inl e, w) | Inr entries \<Rightarrow> render_cards entries w)"
  by (simp add: history_panel_def panel_entries_def split: option.splits sum.splits)

text \<open>
  C3. For a store whose log is \<open>L\<close> (an absent file being the empty log),
  \<^verbatim>\<open>save_to_history\<close> succeeds and leaves the file holding \<open>L\<close> with the new record at
  the end; after a second append the two most recent entries, as the panel would read them,
  are the second record and then the first.
\<close>

theorem append_preserves_log:
  assumes "stored_log w = Some L"
  shows "save_to_history now text ctype w =
           (Inr (), w\<lparr>files := (files w)(history_file \<mapsto>
                        Json_text (JArr (L @ [new_entry now text ctype])))\<rparr>) \<and>
         stored_log (snd (save_to_history now text ctype w)) =
           Some (L @ [new_entry now text ctype]) \<and>
         panel_entries 2
           (snd (save_to_history nowB textB typeB (snd (save_to_history now text ctype w)))) =
           Inr [new_entry nowB textB typeB, new_entry now text ctype]"
proof -
  let ?a = "new_entry now text ctype"
  let ?wa = "w\<lparr>files := (files w)(history_file \<mapsto> Json_text (JArr (L @ [?a])))\<rparr>"
  have a: "save_to_history now text ctype w = (Inr (), ?wa)"
    by (rule save_to_history_log [OF assms])
  have la: "stored_log ?wa = Some (L @ [?a])"
    by (rule stored_log_written)
  have b: "save_to_history nowB textB typeB ?wa =
      (Inr (), ?wa\<lparr>files := (files ?wa)(history_file \<mapsto>
                        Json_text (JArr ((L @ [?a]) @ [new_entry nowB textB typeB])))\<rparr>)"
    by (rule save_to_history_log [OF la])
  show ?thesis
    unfolding a b snd_conv
    by (simp add: stored_log_def panel_entries_def json_load_def recent_last_two)
qed

theorem append_preserves_log_witness:
  "stored_log (fresh_world\<lparr>files := (files fresh_world)(history_file \<mapsto> Json_text (JArr [JNull]))\<rparr>)
     = Some [JNull] \<and>
   stored_log (snd (save_to_history noon ''a'' ''Speech to Text''
     (fresh_world\<lparr>files := (files fresh_world)(history_file \<mapsto> Json_text (JArr [JNull]))\<rparr>)))
     = Some [JNull, new_entry noon ''a'' ''Speech to Text'']"
  using append_preserves_log [of
      "fresh_world\<lparr>files := (files fresh_world)(history_file \<mapsto> Json_text (JArr [JNull]))\<rparr>"
      "[JNull]" noon "''a''" "''Speech to Text''"]
  by (simp add: stored_log_def)

text \<open>
  C1. Starting from a store that was never written, after \<open>N\<close> appends the panel iterates
  over exactly \<open>min N 5\<close> entries, the most recent first, and draws one card for each in
  that order without raising; with no append at all it draws nothing and does not raise.
\<close>

theorem panel_shows_last_five:
  assumes "files w history_file = None"
  shows "panel_entries 5 (appends rs w) = Inr (take 5 (rev (map entry_of rs))) \<and>
         length (take 5 (rev (map entry_of rs))) = min (length rs) 5 \<and>
         history_panel (appends rs w) =
           (Inr (), (appends rs w)\<lparr>screen := screen (appends rs w) @ map card_of (take 5 (rev rs))\<rparr>) \<and>
         history_panel w = (Inr (), w)"
proof -
  have log: "stored_log w = Some []"
    by (rule stored_log_absent [OF assms])
  have e: "panel_entries 5 (appends rs w) = Inr (take 5 (rev (map entry_of rs)))"
    unfolding appends_log [OF log]
    by (simp add: panel_entries_def assms json_load_def recent_array)
  have m: "take 5 (rev (map entry_of rs)) = map entry_of (take 5 (rev rs))"
    by (simp add: rev_map take_map)
  have p: "history_panel (appends rs w) =
           (Inr (), (appends rs w)\<lparr>screen := screen (appends rs w) @ map card_of (take 5 (rev rs))\<rparr>)"
    unfolding history_panel_entries e m by (simp add: render_cards_entries)
  have z: "history_panel w = (Inr (), w)"
    by (simp add: history_panel_def assms)
  show ?thesis
    using e p z by (simp add: min.commute)
qed

theorem panel_shows_last_five_witness:
  "files fresh_world history_file = None \<and>
   panel_entries 5
     (appends [(noon, ''a'', ''Speech to Text''), (later, ''b'', ''Text to Speech'')] fresh_world) =
     Inr [new_entry later ''b'' ''Text to Speech'', new_entry noon ''a'' ''Speech to Text'']"
  using panel_shows_last_five [of fresh_world
      "[(noon, ''a'', ''Speech to Text''), (later, ''b'', ''Text to Speech'')]"]
  by (simp add: fresh_world_def entry_of_triple)

section \<open>What each block of main leaves alone\<close>

lemma and_then_keeps:
  "P (snd r) \<Longrightarrow> (\<And>w'. P w' \<Longrightarrow> P (snd (f w'))) \<Longrightarrow> P (snd (and_then r f))"
  by (cases r) (auto simp: and_then_def split: sum.splits)

lemma and_then_Inl: "and_then (Inl e, w) f = (Inl e, w)"
  by (simp add: and_then_def)

lemma and_then_Inr: "and_then (Inr u, w) f = f w"
  by (simp add: and_then_def)

lemma snd_and_then:
  "snd (and_then r f) = (case fst r of Inl e \<Rightarrow> snd r | Inr u \<Rightarrow> snd (f (snd r)))"
  by (cases r) (auto simp: and_then_def split: sum.splits)

lemma render_cards_files: "files (snd (render_cards xs w)) = files w"
  by (induction xs arbitrary: w) (auto split: sum.splits)


lemma history_panel_files: "files (snd (history_panel w)) = files w"
  by (simp add: history_panel_def render_cards_files split: option.splits sum.splits)






lemma record_block_project_files:
  "p \<noteq> temp_recording \<Longrightarrow> files (snd (record_block_project env act w)) p = files w p"
  by (simp add: record_block_project_def Let_def split: sum.splits)

lemma record_block_app_files:
  "p \<noteq> temp_recording \<Longrightarrow> files (snd (record_block_app env act w)) p = files w p"
  by (simp add: record_block_app_def split: sum.splits)





lemma text_to_speech_files:
  "p \<noteq> temp_speech \<Longrightarrow> files (snd (text_to_speech env t w)) p = files w p"
  by (simp add: text_to_speech_def Let_def split: option.splits)

lemma text_to_speech_path: "text_to_speech env t w = (Inr f, w1) \<Longrightarrow> f = temp_speech"
  by (auto simp: text_to_speech_def Let_def split: option.splits)





lemma stored_log_same_file:
  "files w' history_file = files w history_file \<Longrightarrow> stored_log w' = stored_log w"
  by (simp add: stored_log_def)

lemma save_to_history_not_log:
  "stored_log w = None \<Longrightarrow>
     isl (fst (save_to_history n t c w)) \<and> snd (save_to_history n t c w) = w \<and>
     save_to_history_steps n t c w = []"
  by (auto simp: stored_log_def save_to_history_def save_to_history_steps_def read_history_def
                 json_load_def list_append_def
           split: option.splits file_data.splits json.splits)

lemma and_then_history_kept:
  "files (snd r) history_file = x \<Longrightarrow>
   (\<And>w'. files w' history_file = x \<Longrightarrow> files (snd (f w')) history_file = x) \<Longrightarrow>
   files (snd (and_then r f)) history_file = x"
  by (rule and_then_keeps)

lemma transcribe_block_project_not_log:
  assumes "files w' history_file = files w history_file" "stored_log w = None"
  shows "files (snd (transcribe_block_project env act w')) history_file = files w history_file"
proof -
  have "\<And>t. stored_log (w'\<lparr>screen := screen w' @ [Text_area t]\<rparr>) = stored_log w"
    by (rule stored_log_same_file) (simp add: assms(1))
  then have "\<And>t. stored_log (w'\<lparr>screen := screen w' @ [Text_area t]\<rparr>) = None"
    by (simp add: assms(2))
  then have "\<And>t. snd (save_to_history (now_stt env) t ''Speech to Text''
                        (w'\<lparr>screen := screen w' @ [Text_area t]\<rparr>)) =
                 w'\<lparr>screen := screen w' @ [Text_area t]\<rparr>"
    by (simp add: save_to_history_not_log)
  then show ?thesis
    using assms(1)
    by (simp add: transcribe_block_project_def split: option.splits sum.splits)
qed

lemma transcribe_block_app_not_log:
  assumes "files w' history_file = files w history_file" "stored_log w = None"
    and "tmp_name env \<noteq> history_file"
  shows "files (snd (transcribe_block_app env act w')) history_file = files w history_file"
proof -
  have k: "\<And>v t. files v history_file = files w history_file \<Longrightarrow>
                 snd (save_to_history (now_stt env) t ''Speech to Text'' v) = v"
  proof -
    fix v :: world and t
    assume "files v history_file = files w history_file"
    then have "stored_log v = stored_log w"
      by (rule stored_log_same_file)
    then have "stored_log v = None"
      by (simp add: assms(2))
    then show "snd (save_to_history (now_stt env) t ''Speech to Text'' v) = v"
      by (simp add: save_to_history_not_log)
  qed
  show ?thesis
    using assms(1) not_sym [OF assms(3)]
    by (simp add: transcribe_block_app_def Let_def snd_and_then speech_to_text_app_def k
             split: option.splits sum.splits whisper_result.splits)
qed

lemma convert_block_not_log:
  assumes "files w' history_file = files w history_file" "stored_log w = None"
  shows "files (snd (convert_block env act w')) history_file = files w history_file"
proof (cases "text_to_speech env (input_text act) w'")
  case (Pair r w1)
  have f1: "files w1 history_file = files w history_file"
    using text_to_speech_files [of history_file env "input_text act" w'] Pair assms(1) by simp
  have "\<And>b. stored_log (w1\<lparr>screen := screen w1 @ [Audio b]\<rparr>) = stored_log w"
    by (rule stored_log_same_file) (simp add: f1)
  then have "\<And>b. stored_log (w1\<lparr>screen := screen w1 @ [Audio b]\<rparr>) = None"
    by (simp add: assms(2))
  then have s: "\<And>b. snd (save_to_history (now_tts env) (input_text act) ''Text to Speech''
                        (w1\<lparr>screen := screen w1 @ [Audio b]\<rparr>)) =
                 w1\<lparr>screen := screen w1 @ [Audio b]\<rparr>"
    and i: "\<And>b. isl (fst (save_to_history (now_tts env) (input_text act) ''Text to Speech''
                        (w1\<lparr>screen := screen w1 @ [Audio b]\<rparr>)))"
    by (simp_all add: save_to_history_not_log)
  have e: "\<And>b. fst (save_to_history (now_tts env) (input_text act) ''Text to Speech''
                        (w1\<lparr>screen := screen w1 @ [Audio b]\<rparr>)) \<noteq> Inr ()"
    using i by (metis sum.disc(2))
  show ?thesis
    using Pair f1 assms(1) s e
    by (auto simp: convert_block_def snd_and_then split: option.splits sum.splits)
qed

lemma main_project_not_log:
  assumes "stored_log w = None"
  shows "files (snd (main_project env act w)) history_file = files w history_file"
  unfolding main_project_def
  apply (rule and_then_history_kept)
   apply (simp add: history_panel_files)
  apply (rule and_then_history_kept)
   apply (simp add: record_block_project_files)
  apply (rule and_then_history_kept)
   apply (erule transcribe_block_project_not_log [OF _ assms])
  apply (erule convert_block_not_log [OF _ assms])
  done

lemma main_app_not_log:
  assumes "stored_log w = None" "tmp_name env \<noteq> history_file"
  shows "files (snd (main_app env act w)) history_file = files w history_file"
  unfolding main_app_def
  apply (rule and_then_history_kept)
   apply (simp add: history_panel_files)
  apply (rule and_then_history_kept)
   apply (simp add: record_block_app_files)
  apply (rule and_then_history_kept)
   apply (erule transcribe_block_app_not_log [OF _ assms])
  apply (erule convert_block_not_log [OF _ assms(1)])
  done

text \<open>
  C6, as stated, fails for a store that parses but is not a log. On the document
  \<^verbatim>\<open>""\<close> the read of the history panel signals nothing, and the conversion that the run
  then performs is not abandoned with the state untouched: the engine has spoken and its
  scratch file is on disk when the append raises.
\<close>

theorem parsable_non_log_not_signalled:
  "stored_log string_store_world = None \<and>
   \<not> isl (fst (history_panel string_store_world)) \<and>
   spoken string_store_world = [] \<and>
   spoken (snd (main_project deaf_env say_hi string_store_world)) = [''hi''] \<and>
   files string_store_world temp_speech \<noteq>
     files (snd (main_project deaf_env say_hi string_store_world)) temp_speech"
  by (simp add: deaf_env_def say_hi_def fresh_world_def string_store_world_def stored_log_def
                main_project_def history_panel_def record_block_project_def
                transcribe_block_project_def convert_block_def text_to_speech_def Let_def
                and_then_def json_load_def recent_def slice_last_def save_to_history_def
                read_history_def list_append_def)

text \<open>
  C6, amended. When the history file exists and \<^verbatim>\<open>json.load\<close> cannot read it, because
  its text does not parse or its bytes do not decode, \<^verbatim>\<open>save_to_history\<close> raises the
  decoder's error before it opens the file for writing, and a run of main raises it in the
  history panel, before any action of the run: in each case the world, the history file
  included, is as it was. When the file holds anything that is not an array, whether
  unreadable or a JSON document of another kind, \<^verbatim>\<open>save_to_history\<close> raises without
  writing (\<^verbatim>\<open>AttributeError\<close> for a JSON document) and leaves the world as it was, and no run
  of main changes the history file.
\<close>

theorem unreadable_store_abandons:
  "(files w history_file = Some (Not_json b) \<longrightarrow>
      save_to_history n t c w = (Inl JSONDecodeError, w) \<and>
      save_to_history_steps n t c w = [] \<and>
      history_panel w = (Inl JSONDecodeError, w) \<and>
      main_project env act w = (Inl JSONDecodeError, w) \<and>
      main_app env act w = (Inl JSONDecodeError, w)) \<and>
   (files w history_file = Some (Not_text b) \<longrightarrow>
      save_to_history n t c w = (Inl UnicodeDecodeError, w) \<and>
      save_to_history_steps n t c w = [] \<and>
      history_panel w = (Inl UnicodeDecodeError, w) \<and>
      main_project env act w = (Inl UnicodeDecodeError, w) \<and>
      main_app env act w = (Inl UnicodeDecodeError, w)) \<and>
   (stored_log w = None \<longrightarrow>
      isl (fst (save_to_history n t c w)) \<and>
      snd (save_to_history n t c w) = w \<and>
      save_to_history_steps n t c w = [] \<and>
      (files w history_file = Some (Json_text j) \<longrightarrow>
         save_to_history n t c w = (Inl AttributeError, w)) \<and>
      files (snd (history_panel w)) history_file = files w history_file \<and>
      files (snd (main_project env act w)) history_file = files w history_file \<and>
      (tmp_name env \<noteq> history_file \<longrightarrow>
         files (snd (main_app env act w)) history_file = files w history_file))"
proof -
  have a: "files w history_file = Some (Not_json b) \<Longrightarrow>
      save_to_history n t c w = (Inl JSONDecodeError, w) \<and>
      save_to_history_steps n t c w = [] \<and>
      history_panel w = (Inl JSONDecodeError, w) \<and>
      main_project env act w = (Inl JSONDecodeError, w) \<and>
      main_app env act w = (Inl JSONDecodeError, w)"
    by (simp add: history_panel_def main_project_def main_app_def and_then_Inl
                  save_to_history_def save_to_history_steps_def read_history_def json_load_def)
  have b: "files w history_file = Some (Not_text b) \<Longrightarrow>
      save_to_history n t c w = (Inl UnicodeDecodeError, w) \<and>
      save_to_history_steps n t c w = [] \<and>
      history_panel w = (Inl UnicodeDecodeError, w) \<and>
      main_project env act w = (Inl UnicodeDecodeError, w) \<and>
      main_app env act w = (Inl UnicodeDecodeError, w)"
    by (simp add: history_panel_def main_project_def main_app_def and_then_Inl
                  save_to_history_def save_to_history_steps_def read_history_def json_load_def)
  have d: "stored_log w = None \<Longrightarrow> files w history_file = Some (Json_text j) \<Longrightarrow>
      save_to_history n t c w = (Inl AttributeError, w)"
    by (auto simp: stored_log_def save_to_history_def read_history_def json_load_def
                   list_append_def split: json.splits)
  show ?thesis
    using a b d save_to_history_not_log [of w n t c] main_project_not_log [of w env act]
      main_app_not_log [of w env act]
    by (simp add: history_panel_files)
qed

theorem unreadable_store_abandons_witness:
  "files (fresh_world\<lparr>files := (files fresh_world)(history_file \<mapsto> Not_json ''[{'')\<rparr>)
     history_file = Some (Not_json ''[{'') \<and>
   main_project deaf_env say_hi
     (fresh_world\<lparr>files := (files fresh_world)(history_file \<mapsto> Not_json ''[{'')\<rparr>) =
     (Inl JSONDecodeError,
      fresh_world\<lparr>files := (files fresh_world)(history_file \<mapsto> Not_json ''[{'')\<rparr>) \<and>
   files binary_store_world history_file = Some (Not_text ''RIFF'') \<and>
   main_app deaf_env say_hi binary_store_world = (Inl UnicodeDecodeError, binary_store_world) \<and>
   stored_log string_store_world = None \<and>
   files string_store_world history_file = Some (Json_text (JStr [])) \<and>
   tmp_name deaf_env \<noteq> history_file \<and>
   save_to_history noon ''x'' ''Text to Speech'' string_store_world =
     (Inl AttributeError, string_store_world) \<and>
   files (snd (main_project deaf_env say_hi string_store_world)) history_file =
     Some (Json_text (JStr [])) \<and>
   files (snd (main_app deaf_env noise_upload string_store_world)) history_file =
     Some (Json_text (JStr []))"
  using unreadable_store_abandons [where
      w = "fresh_world\<lparr>files := (files fresh_world)(history_file \<mapsto> Not_json ''[{'')\<rparr>"
      and b = "''[{''" and env = deaf_env and act = say_hi]
    unreadable_store_abandons [where w = binary_store_world and b = "''RIFF''"
      and env = deaf_env and act = say_hi]
    unreadable_store_abandons [where w = string_store_world and j = "JStr []"
      and n = noon and t = "''x''" and c = "''Text to Speech''" and env = deaf_env
      and act = say_hi]
    unreadable_store_abandons [where w = string_store_world and j = "JStr []"
      and env = deaf_env and act = noise_upload]
  by (simp add: binary_store_world_def string_store_world_def fresh_world_def stored_log_def
                deaf_env_def)

section \<open>Transcription failures\<close>

lemma transcribe_block_project_sample:
  assumes "(case uploaded_file act of Some u \<Rightarrow> Some (getvalue u)
            | None \<Rightarrow> files w temp_recording) = Some s"
    and "speech_to_text_project env s = Inr t"
    and "stored_log w = Some L"
  shows "transcribe_block_project env act w =
           (Inr (), w\<lparr>screen := screen w @ [Text_area t],
                       files := (files w)(history_file \<mapsto>
                          Json_text (JArr (L @ [new_entry (now_stt env) t ''Speech to Text''])))\<rparr>)"
proof -
  let ?w = "w\<lparr>screen := screen w @ [Text_area t]\<rparr>"
  have "stored_log ?w = Some L"
    using assms(3) by (simp add: stored_log_def)
  from save_to_history_log [OF this]
  show ?thesis
    by (simp add: transcribe_block_project_def assms(1) assms(2))
qed

lemma transcribe_block_app_sample:
  assumes "uploaded_file act = None" "files w temp_recording = Some r"
    and "stored_log w = Some L"
  shows "transcribe_block_app env act w =
           (Inr (), w\<lparr>screen := screen w @ [Text_area (heard_app env r)],
                       files := (files w)(history_file \<mapsto>
                          Json_text (JArr (L @ [new_entry (now_stt env) (heard_app env r)
                                                  ''Speech to Text''])))\<rparr>)"
proof -
  let ?w = "w\<lparr>screen := screen w @ [Text_area (heard_app env r)]\<rparr>"
  have s: "speech_to_text_app env temp_recording w = Inr (heard_app env r)"
    by (simp add: speech_to_text_app_def heard_app_def assms(2) split: whisper_result.splits)
  have "stored_log ?w = Some L"
    using assms(3) by (simp add: stored_log_def)
  from save_to_history_log [OF this]
  show ?thesis
    by (simp add: transcribe_block_app_def assms(1) assms(2) s and_then_Inr)
qed

lemma transcribe_block_app_upload:
  assumes "uploaded_file act = Some u" "tmp_name env \<noteq> history_file"
    and "stored_log w = Some L"
  shows "transcribe_block_app env act w =
           (Inr (), w\<lparr>screen := screen w @ [Text_area (heard_app env (getvalue u))],
                       files := ((files w)(history_file \<mapsto>
                          Json_text (JArr (L @ [new_entry (now_stt env)
                            (heard_app env (getvalue u)) ''Speech to Text'']))))
                          (tmp_name env := None)\<rparr>)"
proof -
  let ?t = "heard_app env (getvalue u)"
  let ?J = "Json_text (JArr (L @ [new_entry (now_stt env) ?t ''Speech to Text'']))"
  let ?w1 = "w\<lparr>files := (files w)(tmp_name env \<mapsto> getvalue u)\<rparr>"
  let ?w2 = "?w1\<lparr>screen := screen ?w1 @ [Text_area ?t]\<rparr>"
  have s: "speech_to_text_app env (tmp_name env) ?w1 = Inr ?t"
    by (simp add: speech_to_text_app_def heard_app_def split: whisper_result.splits)
  have "stored_log ?w2 = Some L"
    using assms(2) assms(3) by (simp add: stored_log_def)
  note sv = save_to_history_log [OF this, of "now_stt env" ?t "''Speech to Text''", simplified]
  have fe: "((files w)(tmp_name env \<mapsto> getvalue u, history_file \<mapsto> ?J))(tmp_name env := None) =
            ((files w)(history_file \<mapsto> ?J))(tmp_name env := None)"
    by (rule ext) simp
  show ?thesis
    by (simp add: transcribe_block_app_def Let_def assms(1) s sv and_then_Inr fe)
qed

text \<open>
  C2, as stated, fails: a sample the recogniser cannot interpret is turned into the text
  \<^verbatim>\<open>Could not understand audio\<close>, and the run that transcribes it appends a history
  record all the same.
\<close>

theorem failed_transcription_is_logged:
  "\<not> (speech_to_text_project deaf_env (Not_json ''noise'') = Inr ''Could not understand audio''
        \<longrightarrow> stored_log (snd (main_project deaf_env noise_upload fresh_world)) =
            stored_log fresh_world)"
  by (simp add: speech_to_text_project_def deaf_env_def noise_upload_def fresh_world_def
                main_project_def history_panel_def record_block_project_def
                transcribe_block_project_def convert_block_def and_then_def
                save_to_history_def read_history_def list_append_def json_dump_def open_w_def
                stored_log_def)

text \<open>
  C2, amended. When the engine cannot interpret the sample (the recogniser raises
  \<^verbatim>\<open>UnknownValueError\<close>; Whisper raises any exception), the adapter returns an explanatory
  text instead of raising, and the transcribe block shows that text and appends it to the
  history as a \<^verbatim>\<open>Speech to Text\<close> record, as it does for a transcription: for an upload
  and for the recording file, in both programs (\<^verbatim>\<open>app.py\<close> transcribes a temporary copy
  of an upload and removes the copy afterwards).
\<close>

theorem failed_transcription_returns_sentinel:
  "(sr_record env s = Inr a \<and> recognize_google env a = UnknownValueError \<longrightarrow>
      speech_to_text_project env s = Inr ''Could not understand audio'' \<and>
      ((case uploaded_file act of Some u \<Rightarrow> Some (getvalue u)
        | None \<Rightarrow> files w temp_recording) = Some s \<and> stored_log w = Some L \<longrightarrow>
       transcribe_block_project env act w =
         (Inr (), w\<lparr>screen := screen w @ [Text_area ''Could not understand audio''],
                     files := (files w)(history_file \<mapsto>
                        Json_text (JArr (L @ [new_entry (now_stt env)
                          ''Could not understand audio'' ''Speech to Text''])))\<rparr>))) \<and>
   (transcribe env (Some r) = WhisperException m \<longrightarrow>
      (files w p = Some r \<longrightarrow>
         speech_to_text_app env p w = Inr (''Error in transcription: '' @ m)) \<and>
      (uploaded_file act = None \<and> files w temp_recording = Some r \<and> stored_log w = Some L \<longrightarrow>
       transcribe_block_app env act w =
         (Inr (), w\<lparr>screen := screen w @ [Text_area (''Error in transcription: '' @ m)],
                     files := (files w)(history_file \<mapsto>
                        Json_text (JArr (L @ [new_entry (now_stt env)
                          (''Error in transcription: '' @ m) ''Speech to Text''])))\<rparr>)) \<and>
      (uploaded_file act = Some u \<and> getvalue u = r \<and> tmp_name env \<noteq> history_file \<and>
       stored_log w = Some L \<longrightarrow>
       transcribe_block_app env act w =
         (Inr (), w\<lparr>screen := screen w @ [Text_area (''Error in transcription: '' @ m)],
                     files := ((files w)(history_file \<mapsto>
                        Json_text (JArr (L @ [new_entry (now_stt env)
                          (''Error in transcription: '' @ m) ''Speech to Text'']))))
                        (tmp_name env := None)\<rparr>)))"
proof -
  have p: "sr_record env s = Inr a \<and> recognize_google env a = UnknownValueError \<Longrightarrow>
           speech_to_text_project env s = Inr ''Could not understand audio''"
    by (simp add: speech_to_text_project_def)
  have h: "transcribe env (Some r) = WhisperException m \<Longrightarrow>
           heard_app env r = ''Error in transcription: '' @ m"
    by (simp add: heard_app_def)
  have q: "transcribe env (Some r) = WhisperException m \<Longrightarrow> files w p = Some r \<Longrightarrow>
           speech_to_text_app env p w = Inr (''Error in transcription: '' @ m)"
    by (simp add: speech_to_text_app_def)
  show ?thesis
    using p q h
      transcribe_block_project_sample [where act = act and w = w and s = s and env = env
        and t = "''Could not understand audio''" and L = L]
      transcribe_block_app_sample [where act = act and w = w and r = r and L = L and env = env]
      transcribe_block_app_upload [where act = act and w = w and u = u and L = L and env = env]
    by auto
qed

theorem failed_transcription_returns_sentinel_witness:
  "sr_record deaf_env (Not_json ''noise'') = Inr ''pcm'' \<and>
   recognize_google deaf_env ''pcm'' = UnknownValueError \<and>
   (case uploaded_file noise_upload of Some u \<Rightarrow> Some (getvalue u)
    | None \<Rightarrow> files fresh_world temp_recording) = Some (Not_json ''noise'') \<and>
   stored_log fresh_world = Some [] \<and>
   fst (transcribe_block_project deaf_env noise_upload fresh_world) = Inr () \<and>
   stored_log (snd (transcribe_block_project deaf_env noise_upload fresh_world)) =
     Some [new_entry noon ''Could not understand audio'' ''Speech to Text''] \<and>
   transcribe deaf_env (Some (Not_json ''RIFF'')) = WhisperException ''out of memory'' \<and>
   uploaded_file idle = None \<and>
   files (fresh_world\<lparr>files := (files fresh_world)(temp_recording \<mapsto> Not_json ''RIFF'')\<rparr>)
     temp_recording = Some (Not_json ''RIFF'') \<and>
   stored_log (snd (transcribe_block_app deaf_env idle
      (fresh_world\<lparr>files := (files fresh_world)(temp_recording \<mapsto> Not_json ''RIFF'')\<rparr>))) =
     Some [new_entry noon ''Error in transcription: out of memory'' ''Speech to Text''] \<and>
   transcribe deaf_env (Some (Not_json ''noise'')) = WhisperException ''out of memory'' \<and>
   uploaded_file noise_upload =
     Some \<lparr>upload_name = ''noise.wav'', getvalue = Not_json ''noise''\<rparr> \<and>
   tmp_name deaf_env \<noteq> history_file \<and>
   stored_log (snd (transcribe_block_app deaf_env noise_upload fresh_world)) =
     Some [new_entry noon ''Error in transcription: out of memory'' ''Speech to Text''] \<and>
   files (snd (transcribe_block_app deaf_env noise_upload fresh_world)) (tmp_name deaf_env) = None"
  using failed_transcription_returns_sentinel [where env = deaf_env and s = "Not_json ''noise''"
      and a = "''pcm''" and act = noise_upload and w = fresh_world and L = "[]"
      and r = "Not_json ''noise''" and m = "''out of memory''"
      and u = "\<lparr>upload_name = ''noise.wav'', getvalue = Not_json ''noise''\<rparr>"]
    failed_transcription_returns_sentinel [where env = deaf_env and s = "Not_json ''noise''"
      and a = "''pcm''" and act = idle
      and w = "fresh_world\<lparr>files := (files fresh_world)(temp_recording \<mapsto> Not_json ''RIFF'')\<rparr>"
      and L = "[]" and r = "Not_json ''RIFF''" and m = "''out of memory''"]
  by (simp add: deaf_env_def noise_upload_def idle_def fresh_world_def stored_log_def)

text \<open>
  C7, as stated, fails in \<^verbatim>\<open>app.py\<close>: an engine failure that is neither of the two
  recoverable kinds is not surfaced as an error; it is returned as text too.
\<close>

theorem whisper_failure_not_surfaced:
  "\<not> (transcribe deaf_env (files fresh_world temp_recording) = WhisperException ''out of memory''
        \<longrightarrow> isl (speech_to_text_app deaf_env temp_recording fresh_world))"
  by (simp add: speech_to_text_app_def deaf_env_def)

text \<open>
  C7, amended. In \<^verbatim>\<open>project.py\<close> the recogniser's \<^verbatim>\<open>UnknownValueError\<close> and
  \<^verbatim>\<open>RequestError\<close> each yield a fixed explanatory text, and every other failure, also one
  raised while the sample is read, propagates as an error carrying its message. In
  \<^verbatim>\<open>app.py\<close> every exception of the engine yields the text
  \<^verbatim>\<open>Error in transcription:\<close> followed by its message, and the adapter never raises.
\<close>

theorem transcription_failure_mapping:
  "(sr_record env s = Inr a \<and> recognize_google env a = UnknownValueError \<longrightarrow>
      speech_to_text_project env s = Inr ''Could not understand audio'') \<and>
   (sr_record env s = Inr a \<and> recognize_google env a = RequestError m \<longrightarrow>
      speech_to_text_project env s = Inr ''Could not request results'') \<and>
   (sr_record env s = Inr a \<and> recognize_google env a = OtherException m \<longrightarrow>
      speech_to_text_project env s = Inl (EngineError m)) \<and>
   (sr_record env s = Inl m \<longrightarrow> speech_to_text_project env s = Inl (EngineError m)) \<and>
   (transcribe env (files w p) = WhisperException m \<longrightarrow>
      speech_to_text_app env p w = Inr (''Error in transcription: '' @ m)) \<and>
   \<not> isl (speech_to_text_app env p w)"
  by (simp add: speech_to_text_project_def speech_to_text_app_def split: whisper_result.splits)

theorem transcription_failure_mapping_witness:
  "speech_to_text_project deaf_env (Not_json ''noise'') = Inr ''Could not understand audio'' \<and>
   speech_to_text_project (deaf_env\<lparr>recognize_google := (\<lambda>a. RequestError ''quota'')\<rparr>)
     (Not_json ''noise'') = Inr ''Could not request results'' \<and>
   speech_to_text_project (deaf_env\<lparr>recognize_google := (\<lambda>a. OtherException ''boom'')\<rparr>)
     (Not_json ''noise'') = Inl (EngineError ''boom'') \<and>
   speech_to_text_project (deaf_env\<lparr>sr_record := (\<lambda>d. Inl ''not a WAV file'')\<rparr>)
     (Not_json ''noise'') = Inl (EngineError ''not a WAV file'') \<and>
   speech_to_text_app deaf_env temp_recording fresh_world =
     Inr ''Error in transcription: out of memory''"
  using transcription_failure_mapping [where env = deaf_env and s = "Not_json ''noise''"
      and a = "''pcm''" and w = fresh_world and p = temp_recording and m = "''out of memory''"]
    transcription_failure_mapping [where
      env = "deaf_env\<lparr>recognize_google := (\<lambda>a. RequestError ''quota'')\<rparr>"
      and s = "Not_json ''noise''" and a = "''pcm''" and m = "''quota''"]
    transcription_failure_mapping [where
      env = "deaf_env\<lparr>recognize_google := (\<lambda>a. OtherException ''boom'')\<rparr>"
      and s = "Not_json ''noise''" and a = "''pcm''" and m = "''boom''"]
    transcription_failure_mapping [where
      env = "deaf_env\<lparr>sr_record := (\<lambda>d. Inl ''not a WAV file'')\<rparr>"
      and s = "Not_json ''noise''" and m = "''not a WAV file''"]
  by (simp add: deaf_env_def fresh_world_def)

section \<open>The scratch file of the synthesiser\<close>

lemma convert_block_success:
  assumes "convert_to_speech act" "input_text act \<noteq> []"
    and "synth env (input_text act) = (None, Some b)"
    and "stored_log w = Some L"
  shows "fst (convert_block env act w) = Inr () \<and>
         files (snd (convert_block env act w)) temp_speech = None \<and>
         stored_log (snd (convert_block env act w)) =
           Some (L @ [new_entry (now_tts env) (input_text act) ''Text to Speech''])"
proof -
  let ?w1 = "w\<lparr>files := (files w)(temp_speech \<mapsto> b),
               spoken := spoken w @ [input_text act]\<rparr>"
  let ?w2 = "?w1\<lparr>screen := screen ?w1 @ [Audio b]\<rparr>"
  have t: "text_to_speech env (input_text act) w = (Inr temp_speech, ?w1)"
    by (simp add: text_to_speech_def Let_def assms(3))
  have "stored_log ?w2 = Some L"
    using assms(4) by (simp add: stored_log_def)
  from save_to_history_log [OF this]
  show ?thesis
    by (simp add: convert_block_def assms(1) assms(2) t and_then_Inr stored_log_def)
qed

text \<open>
  C4 does not hold of the code. The scratch file is removed by the last statement of the
  block only: when the engine raises after its driver has written the file, or when
  \<^verbatim>\<open>save_to_history\<close> raises after a successful synthesis, the run ends with
  \<^verbatim>\<open>temp_speech.wav\<close> still on disk.
\<close>

theorem synthesis_artifact_left_behind:
  "fst (main_project failing_synth_env say_hi fresh_world) = Inl (EngineError ''driver error'') \<and>
   files (snd (main_project failing_synth_env say_hi fresh_world)) temp_speech =
     Some (Not_json ''RI'') \<and>
   fst (main_app failing_synth_env say_hi fresh_world) = Inl (EngineError ''driver error'') \<and>
   files (snd (main_app failing_synth_env say_hi fresh_world)) temp_speech =
     Some (Not_json ''RI'') \<and>
   fst (main_project deaf_env say_hi string_store_world) = Inl AttributeError \<and>
   files (snd (main_project deaf_env say_hi string_store_world)) temp_speech =
     Some (Not_json ''RIFF'') \<and>
   files string_store_world temp_speech = None"
  by (simp add: failing_synth_env_def deaf_env_def say_hi_def fresh_world_def
                string_store_world_def main_project_def main_app_def history_panel_def
                record_block_project_def record_block_app_def transcribe_block_project_def
                transcribe_block_app_def
                convert_block_def text_to_speech_def Let_def and_then_def json_load_def recent_def
                slice_last_def save_to_history_def read_history_def list_append_def)

section \<open>How the history file is rewritten\<close>

text \<open>
  C8, as stated, fails: the first thing an append does to the disk is to truncate the
  history file itself, which then holds neither the old log nor the new one.
\<close>

theorem history_rewrite_truncates_first:
  "save_to_history_steps later ''b'' ''Text to Speech'' one_record_world \<noteq> [] \<and>
   files (hd (save_to_history_steps later ''b'' ''Text to Speech'' one_record_world))
     history_file = Some (Not_json []) \<and>
   files one_record_world history_file \<noteq> Some (Not_json []) \<and>
   files (snd (save_to_history later ''b'' ''Text to Speech'' one_record_world)) history_file
     \<noteq> Some (Not_json [])"
  by (simp add: save_to_history_steps_def save_to_history_def read_history_def
                one_record_world_def fresh_world_def json_load_def list_append_def
                open_w_def json_dump_def)

text \<open>
  C8, amended. An append rewrites the history file in place, in two steps: opening the
  file for writing leaves it empty, and the dump then leaves it holding the old log with
  the new record at the end, which is the state \<^verbatim>\<open>save_to_history\<close> returns in. No other
  path is written at either step.
\<close>

theorem history_rewrite_in_place:
  assumes "stored_log w = Some L"
  shows "save_to_history_steps n t c w =
           [w\<lparr>files := (files w)(history_file \<mapsto> Not_json [])\<rparr>,
            w\<lparr>files := (files w)(history_file \<mapsto>
                 Json_text (JArr (L @ [new_entry n t c])))\<rparr>] \<and>
         last (save_to_history_steps n t c w) = snd (save_to_history n t c w) \<and>
         (\<forall>s \<in> set (save_to_history_steps n t c w).
            \<forall>p. p \<noteq> history_file \<longrightarrow> files s p = files w p)"
  using stored_log_cases [OF assms]
  by (auto simp: save_to_history_steps_def save_to_history_def read_history_def json_load_def
                 list_append_def open_w_def json_dump_def)

theorem history_rewrite_in_place_witness:
  "stored_log one_record_world = Some [new_entry noon ''a'' ''Speech to Text''] \<and>
   map (\<lambda>s. files s history_file)
     (save_to_history_steps later ''b'' ''Text to Speech'' one_record_world) =
     [Some (Not_json []),
      Some (Json_text (JArr [new_entry noon ''a'' ''Speech to Text'',
                             new_entry later ''b'' ''Text to Speech'']))]"
  using history_rewrite_in_place [of one_record_world
      "[new_entry noon ''a'' ''Speech to Text'']" later "''b''" "''Text to Speech''"]
  by (simp add: one_record_world_def stored_log_def)

section \<open>Timestamps are fixed-width and sort chronologically\<close>

text \<open>
  The order on strings is the lexicographic order on character codes, the order in which
  Python compares and sorts \<^verbatim>\<open>str\<close> values.
\<close>

lemma of_char_digit: "n < 10 \<Longrightarrow> (of_char (digit n) :: nat) = 48 + n"
  by (simp add: digit_def)

lemma digit_less: "a < 10 \<Longrightarrow> b < 10 \<Longrightarrow> digit a < digit b \<longleftrightarrow> a < b"
  by (simp add: less_char_def of_char_digit)

lemma digit_eq:
  assumes "a < 10" "b < 10"
  shows "digit a = digit b \<longleftrightarrow> a = b"
proof
  assume "digit a = digit b"
  then have "(of_char (digit a) :: nat) = of_char (digit b)"
    by (rule arg_cong)
  then show "a = b"
    unfolding of_char_digit [OF assms(1)] of_char_digit [OF assms(2)] by simp
next
  assume "a = b"
  then show "digit a = digit b" by (rule arg_cong)
qed

lemma is_digit_digit: "n < 10 \<Longrightarrow> is_digit (digit n)"
  by (simp add: is_digit_def of_char_digit)

lemma lex2:
  "ra < 10 \<Longrightarrow> rb < 10 \<Longrightarrow>
   (qa < qb \<or> qa = qb \<and> ra < rb) \<longleftrightarrow> 10 * qa + ra < 10 * qb + (rb::nat)"
  by linarith

lemma two_digits_less:
  "(a div 10 < b div 10 \<or> a div 10 = b div 10 \<and> a mod 10 < b mod 10) \<longleftrightarrow> a < (b::nat)"
  using lex2 [of "a mod 10" "b mod 10" "a div 10" "b div 10"] by simp

lemma two_digits_eq:
  "a div 10 = b div 10 \<and> a mod 10 = b mod 10 \<longleftrightarrow> a = (b::nat)"
  by (metis div_mult_mod_eq)

lemma pad2_lex: "pad2 a < pad2 b \<longleftrightarrow>
    (a div 10 mod 10 < b div 10 mod 10 \<or> a div 10 mod 10 = b div 10 mod 10 \<and> a mod 10 < b mod 10)"
  by (simp add: pad2_def digit_less digit_eq)

lemma pad4_lex: "pad4 a < pad4 b \<longleftrightarrow>
    (a div 1000 mod 10 < b div 1000 mod 10 \<or> a div 1000 mod 10 = b div 1000 mod 10 \<and>
    (a div 100 mod 10 < b div 100 mod 10 \<or> a div 100 mod 10 = b div 100 mod 10 \<and>
    (a div 10 mod 10 < b div 10 mod 10 \<or> a div 10 mod 10 = b div 10 mod 10 \<and> a mod 10 < b mod 10)))"
  by (simp add: pad4_def digit_less digit_eq)

lemma div100: "(n::nat) div 100 = n div 10 div 10"
  using div_mult2_eq [of n 10 10] by simp

lemma div1000: "(n::nat) div 1000 = n div 10 div 10 div 10"
  using div_mult2_eq [of n 100 10] by (simp add: div100)

lemma lex_same:
  fixes xs ys :: "(_::linorder) list"
  shows "length xs = length ys \<Longrightarrow> xs @ u < ys @ v \<longleftrightarrow> xs < ys \<or> xs = ys \<and> u < v"
  by (induction xs ys rule: list_induct2) auto

lemma pad2_eq_lex: "pad2 a = pad2 b \<longleftrightarrow>
    (a div 10 mod 10 = b div 10 mod 10 \<and> a mod 10 = b mod 10)"
  by (simp add: pad2_def digit_eq)

lemma pad4_eq_lex: "pad4 a = pad4 b \<longleftrightarrow>
    (a div 1000 mod 10 = b div 1000 mod 10 \<and> a div 100 mod 10 = b div 100 mod 10 \<and>
     a div 10 mod 10 = b div 10 mod 10 \<and> a mod 10 = b mod 10)"
  by (simp add: pad4_def digit_eq)

lemma pad2_less:
  assumes "a < 100" "b < 100"
  shows "pad2 a < pad2 b \<longleftrightarrow> a < b"
proof -
  have "a div 10 mod 10 = a div 10" "b div 10 mod 10 = b div 10"
    using assms by simp_all
  then show ?thesis
    unfolding pad2_lex by (simp only: two_digits_less)
qed

lemma pad2_eq:
  assumes "a < 100" "b < 100"
  shows "pad2 a = pad2 b \<longleftrightarrow> a = b"
proof -
  have "a div 10 mod 10 = a div 10" "b div 10 mod 10 = b div 10"
    using assms by simp_all
  then show ?thesis
    unfolding pad2_eq_lex by (simp only: two_digits_eq)
qed

lemma pad4_less:
  assumes "a < 10000" "b < 10000"
  shows "pad4 a < pad4 b \<longleftrightarrow> a < b"
proof -
  have t: "a div 1000 mod 10 = a div 10 div 10 div 10"
    "b div 1000 mod 10 = b div 10 div 10 div 10"
    using assms by (simp_all add: div1000)
  have h: "a div 100 mod 10 = a div 10 div 10 mod 10"
    "b div 100 mod 10 = b div 10 div 10 mod 10"
    by (simp_all add: div100)
  note s1 = two_digits_less [of a b, symmetric]
  note s2 = two_digits_less [of "a div 10" "b div 10", symmetric]
  note s3 = two_digits_less [of "a div 10 div 10" "b div 10 div 10", symmetric]
  note e2 = two_digits_eq [of "a div 10" "b div 10", symmetric]
  note e3 = two_digits_eq [of "a div 10 div 10" "b div 10 div 10", symmetric]
  show ?thesis
    unfolding pad4_lex t h using s1 s2 s3 e2 e3 by blast
qed

lemma is_timestamp_strftime: "clock_ok d \<Longrightarrow> is_timestamp (strftime d)"
  by (simp add: is_timestamp_def strftime_def pad4_def pad2_def is_digit_digit)

lemma length_strftime: "length (strftime d) = 19"
  by (simp add: strftime_def pad4_def pad2_def)

lemma strftime_microsecond: "strftime (d\<lparr>microsecond := u\<rparr>) = strftime d"
  by (simp add: strftime_def)

lemma pad4_eq:
  assumes "a < 10000" "b < 10000"
  shows "pad4 a = pad4 b \<longleftrightarrow> a = b"
proof -
  have t: "a div 1000 mod 10 = a div 10 div 10 div 10"
    "b div 1000 mod 10 = b div 10 div 10 div 10"
    using assms by (simp_all add: div1000)
  have h: "a div 100 mod 10 = a div 10 div 10 mod 10"
    "b div 100 mod 10 = b div 10 div 10 mod 10"
    by (simp_all add: div100)
  note e1 = two_digits_eq [of a b, symmetric]
  note e2 = two_digits_eq [of "a div 10" "b div 10", symmetric]
  note e3 = two_digits_eq [of "a div 10 div 10" "b div 10 div 10", symmetric]
  show ?thesis
    unfolding pad4_eq_lex t h using e1 e2 e3 by blast
qed

lemma length_pad: "length (pad4 n) = 4" "length (pad2 n) = 2"
  by (simp_all add: pad4_def pad2_def)

lemma strftime_less:
  assumes "clock_ok a" "clock_ok b"
  shows "strftime a < strftime b \<longleftrightarrow> before a b"
proof -
  have r: "year a < 10000" "year b < 10000" "month a < 100" "month b < 100"
    "day a < 100" "day b < 100" "hour a < 100" "hour b < 100"
    "minute a < 100" "minute b < 100" "second a < 100" "second b < 100"
    using assms by (simp_all add: clock_ok_def)
  show ?thesis
    unfolding strftime_def before_def
    by (simp add: lex_same length_pad pad4_less pad4_eq pad2_less pad2_eq r)
qed

section \<open>The schema of the persisted records\<close>

lemma is_record_new_entry:
  assumes "clock_ok n" "c = ''Speech to Text'' \<or> c = ''Text to Speech''"
  shows "is_record (new_entry n t c)"
  using assms is_timestamp_strftime [OF assms(1)]
  by (auto simp: is_record_def new_entry_def str_field_def)

lemma history_ok_cong:
  "files w' history_file = files w history_file \<Longrightarrow> history_ok w' = history_ok w"
  by (simp add: history_ok_def stored_log_def)

lemma save_to_history_ok:
  assumes "history_ok w" "clock_ok n" "c = ''Speech to Text'' \<or> c = ''Text to Speech''"
  shows "history_ok (snd (save_to_history n t c w))"
proof -
  obtain L where L: "stored_log w = Some L" and ok: "list_all is_record L"
    using assms(1) by (auto simp: history_ok_def split: option.splits)
  show ?thesis
    unfolding save_to_history_log [OF L]
    using ok is_record_new_entry [OF assms(2) assms(3)]
    by (simp add: history_ok_def stored_log_def)
qed

lemma and_then_ok:
  "history_ok (snd r) \<Longrightarrow> (\<And>w'. history_ok w' \<Longrightarrow> history_ok (snd (f w'))) \<Longrightarrow>
     history_ok (snd (and_then r f))"
  by (rule and_then_keeps)

lemma history_panel_ok: "history_ok w \<Longrightarrow> history_ok (snd (history_panel w))"
  using history_ok_cong [of "snd (history_panel w)" w] by (simp add: history_panel_files)

lemma record_block_project_ok:
  "history_ok w \<Longrightarrow> history_ok (snd (record_block_project env act w))"
  using history_ok_cong [of "snd (record_block_project env act w)" w]
  by (simp add: record_block_project_files)

lemma record_block_app_ok:
  "history_ok w \<Longrightarrow> history_ok (snd (record_block_app env act w))"
  using history_ok_cong [of "snd (record_block_app env act w)" w]
  by (simp add: record_block_app_files)

lemma transcribe_block_project_ok:
  assumes "history_ok w" "clock_ok (now_stt env)"
  shows "history_ok (snd (transcribe_block_project env act w))"
proof -
  have s: "\<And>t. history_ok (snd (save_to_history (now_stt env) t ''Speech to Text''
                  (w\<lparr>screen := screen w @ [Text_area t]\<rparr>)))"
  proof -
    fix t
    have "history_ok (w\<lparr>screen := screen w @ [Text_area t]\<rparr>)"
      using assms(1) history_ok_cong [of "w\<lparr>screen := screen w @ [Text_area t]\<rparr>" w] by simp
    then show "history_ok (snd (save_to_history (now_stt env) t ''Speech to Text''
                  (w\<lparr>screen := screen w @ [Text_area t]\<rparr>)))"
      using assms(2) by (simp add: save_to_history_ok)
  qed
  show ?thesis
    using assms(1) s
    by (simp add: transcribe_block_project_def split: option.splits sum.splits)
qed

lemma transcribe_block_app_ok:
  assumes "history_ok w" "clock_ok (now_stt env)" "tmp_name env \<noteq> history_file"
  shows "history_ok (snd (transcribe_block_app env act w))"
proof (cases "uploaded_file act \<noteq> None \<or> files w temp_recording \<noteq> None")
  case False
  then show ?thesis
    using assms(1) by (simp add: transcribe_block_app_def)
next
  case True
  define w1 where "w1 = (case uploaded_file act of
                     Some u \<Rightarrow> w\<lparr>files := (files w)(tmp_name env \<mapsto> getvalue u)\<rparr>
                   | None \<Rightarrow> w)"
  define audio_path where "audio_path = (case uploaded_file act of
                             Some u \<Rightarrow> tmp_name env
                           | None \<Rightarrow> temp_recording)"
  have p: "audio_path \<noteq> history_file"
    using assms(3) by (simp add: audio_path_def split: option.splits)
  have ok1: "history_ok w1"
    using assms(1) assms(3) history_ok_cong [of w1 w]
    by (simp add: w1_def split: option.splits)
  obtain t where t: "speech_to_text_app env audio_path w1 = Inr t"
    by (cases "transcribe env (files w1 audio_path)") (auto simp: speech_to_text_app_def)
  let ?w2 = "w1\<lparr>screen := screen w1 @ [Text_area t]\<rparr>"
  have "history_ok ?w2"
    using ok1 history_ok_cong [of ?w2 w1] by simp
  then have ok3: "history_ok (snd (save_to_history (now_stt env) t ''Speech to Text'' ?w2))"
    using assms(2) by (simp add: save_to_history_ok)
  have ok4: "\<And>w3. history_ok w3 \<Longrightarrow>
               history_ok (case uploaded_file act of
                         Some u \<Rightarrow> w3\<lparr>files := (files w3)(audio_path := None)\<rparr>
                       | None \<Rightarrow> w3)"
  proof -
    fix w3 assume "history_ok w3"
    then show "history_ok (case uploaded_file act of
                         Some u \<Rightarrow> w3\<lparr>files := (files w3)(audio_path := None)\<rparr>
                       | None \<Rightarrow> w3)"
      using p history_ok_cong [of "w3\<lparr>files := (files w3)(audio_path := None)\<rparr>" w3]
      by (simp split: option.splits)
  qed
  have "transcribe_block_app env act w =
          and_then (save_to_history (now_stt env) t ''Speech to Text'' ?w2)
            (\<lambda>w3. (Inr (), (case uploaded_file act of
                         Some u \<Rightarrow> w3\<lparr>files := (files w3)(audio_path := None)\<rparr>
                       | None \<Rightarrow> w3)))"
    using True t by (simp add: transcribe_block_app_def Let_def w1_def [symmetric]
                          audio_path_def [symmetric])
  then show ?thesis
    using ok3 ok4 by (simp add: snd_and_then split: sum.splits)
qed

lemma convert_block_ok:
  assumes "history_ok w" "clock_ok (now_tts env)"
  shows "history_ok (snd (convert_block env act w))"
proof (cases "text_to_speech env (input_text act) w")
  case (Pair r w1)
  have "files w1 history_file = files w history_file"
    using text_to_speech_files [of history_file env "input_text act" w] Pair by simp
  then have ok1: "history_ok w1"
    using assms(1) history_ok_cong [of w1 w] by simp
  have s: "\<And>b. history_ok (snd (save_to_history (now_tts env) (input_text act)
               ''Text to Speech'' (w1\<lparr>screen := screen w1 @ [Audio b]\<rparr>)))"
  proof -
    fix b
    have "history_ok (w1\<lparr>screen := screen w1 @ [Audio b]\<rparr>)"
      using ok1 history_ok_cong [of "w1\<lparr>screen := screen w1 @ [Audio b]\<rparr>" w1] by simp
    then show "history_ok (snd (save_to_history (now_tts env) (input_text act)
               ''Text to Speech'' (w1\<lparr>screen := screen w1 @ [Audio b]\<rparr>)))"
      using assms(2) by (simp add: save_to_history_ok)
  qed
  have rm: "\<And>w3 f. f = temp_speech \<Longrightarrow> history_ok w3 \<Longrightarrow>
              history_ok (w3\<lparr>files := (files w3)(f := None)\<rparr>)"
  proof -
    fix w3 f assume "f = temp_speech" "history_ok w3"
    then show "history_ok (w3\<lparr>files := (files w3)(f := None)\<rparr>)"
      using history_ok_cong [of "w3\<lparr>files := (files w3)(f := None)\<rparr>" w3] by simp
  qed
  have path: "\<And>f. r = Inr f \<Longrightarrow> f = temp_speech"
    using Pair text_to_speech_path by blast
  show ?thesis
    using Pair assms(1) ok1 s rm path
    by (auto simp: convert_block_def snd_and_then split: option.splits sum.splits)
qed

text \<open>
  C9. A record that \<^verbatim>\<open>save_to_history\<close> builds has exactly the fields timestamp, text and
  type, each a string, the type being one of the two values main passes; its timestamp has
  the fixed 19-character shape of the format, ignores the microseconds, and sorts as a
  string the way the times sort. If every element of the history file has this schema
  (or the file is absent), so has every element after a run of main, in either program,
  whatever the run does and however it ends.
\<close>

theorem history_schema_invariant:
  assumes "history_ok w" "clock_ok (now_stt env)" "clock_ok (now_tts env)"
    and "tmp_name env \<noteq> history_file"
  shows "history_ok (snd (main_project env act w)) \<and>
         history_ok (snd (main_app env act w)) \<and>
         is_record (new_entry (now_stt env) t ''Speech to Text'') \<and>
         is_record (new_entry (now_tts env) t ''Text to Speech'') \<and>
         length (strftime (now_stt env)) = 19 \<and>
         strftime (now_stt env\<lparr>microsecond := u\<rparr>) = strftime (now_stt env) \<and>
         (strftime (now_stt env) < strftime (now_tts env) \<longleftrightarrow>
            before (now_stt env) (now_tts env))"
proof -
  have p: "history_ok (snd (main_project env act w))"
    unfolding main_project_def
    by (auto intro!: and_then_ok history_panel_ok record_block_project_ok
                     transcribe_block_project_ok convert_block_ok assms)
  have a: "history_ok (snd (main_app env act w))"
    unfolding main_app_def
    by (auto intro!: and_then_ok history_panel_ok record_block_app_ok
                     transcribe_block_app_ok convert_block_ok assms)
  show ?thesis
    using p a assms(2) assms(3)
    by (simp add: is_record_new_entry length_strftime strftime_microsecond strftime_less)
qed

theorem history_schema_invariant_witness:
  "history_ok fresh_world \<and> clock_ok (now_stt deaf_env) \<and> clock_ok (now_tts deaf_env) \<and>
   tmp_name deaf_env \<noteq> history_file \<and>
   history_ok (snd (main_project deaf_env noise_upload fresh_world)) \<and>
   history_ok (snd (main_app deaf_env noise_upload fresh_world)) \<and>
   is_record (new_entry noon ''hello'' ''Speech to Text'') \<and>
   strftime noon < strftime later"
  using history_schema_invariant [where w = fresh_world and env = deaf_env
      and act = noise_upload and t = "''hello''"]
  by (simp add: fresh_world_def deaf_env_def noon_def later_def clock_ok_def before_def
                history_ok_def stored_log_def)

section \<open>The recording file and the renders that follow a record action\<close>

























end
